theory Spec2Isabelle
  imports Complex_Main
begin

text \<open>
  A model of \<^verbatim>\<open>libtado/api_async.py\<close>, a client of the tado thermostat API: the session
  (\<^verbatim>\<open>login\<close>, \<^verbatim>\<open>Home.refresh_auth\<close>, \<^verbatim>\<open>Home._api_call\<close>), the cached properties
  (\<^verbatim>\<open>async_cached_property\<close>), the accessors \<^verbatim>\<open>get_early_start\<close>, \<^verbatim>\<open>zones\<close> and
  \<^verbatim>\<open>set_temperature\<close> of \<^verbatim>\<open>Home\<close>, and \<^verbatim>\<open>Zone.state\<close> and \<^verbatim>\<open>Zone.inside_temperature\<close>.
  Every function takes the world (clock and network) and returns it; an exception is the
  left summand of the result. Concurrent coroutines are not modelled: each call runs
  alone.
\<close>

section \<open>Python values and exceptions\<close>

text \<open>
  The values the client handles are decoded JSON documents (the alias \<^verbatim>\<open>Object\<close> of
  \<^verbatim>\<open>api_async.py\<close>): \<^verbatim>\<open>None\<close>, booleans, integers, floats, strings, lists and
  dictionaries with string keys. A dictionary is kept as the list of its items in
  insertion order. A finite float is an exact rational number, which is all the code
  needs (it compares one number with \<^verbatim>\<open>5\<close>); NaN and the infinities are left out.
\<close>

datatype json =
    JNull
  | JBool bool
  | JInt int
  | JFloat rat
  | JStr string
  | JList "json list"
  | JDict "(string \<times> json) list"

text \<open>
  The exceptions that the modelled code can raise. \<^verbatim>\<open>ClientConnectionError\<close>,
  \<^verbatim>\<open>ClientResponseError\<close> (with the HTTP status) and \<^verbatim>\<open>ContentTypeError\<close> come from
  aiohttp, \<^verbatim>\<open>PathAccessError\<close> from glom, \<^verbatim>\<open>ValueError\<close> from cachetools; the others
  are raised by the interpreter. The source defines no exception class of its own.
\<close>

datatype error =
    ClientConnectionError
  | ClientResponseError nat
  | ContentTypeError
  | KeyError json
  | IndexError
  | TypeError
  | ValueError
  | PathAccessError

text \<open>\<^verbatim>\<open>v[key]\<close> for a string \<^verbatim>\<open>key\<close>: only a dictionary can be subscripted by a string.\<close>

fun getitem :: "json \<Rightarrow> string \<Rightarrow> error + json" where
  "getitem (JDict kvs) key =
     (case map_of kvs key of None \<Rightarrow> Inl (KeyError (JStr key)) | Some v \<Rightarrow> Inr v)"
| "getitem _ key = Inl TypeError"

text \<open>
  \<^verbatim>\<open>v[0]\<close>: the first element of a list, the first character of a string; a dictionary
  decoded from JSON has string keys only, so \<^verbatim>\<open>0\<close> is never a key of it.
\<close>

fun getitem0 :: "json \<Rightarrow> error + json" where
  "getitem0 (JList xs) = (case xs of [] \<Rightarrow> Inl IndexError | x # _ \<Rightarrow> Inr x)"
| "getitem0 (JStr s) = (case s of [] \<Rightarrow> Inl IndexError | c # _ \<Rightarrow> Inr (JStr [c]))"
| "getitem0 (JDict kvs) = Inl (KeyError (JInt 0))"
| "getitem0 _ = Inl TypeError"

text \<open>\<^verbatim>\<open>"literal" + v\<close>: concatenation with a string literal on the left needs a string.\<close>

fun str_add :: "string \<Rightarrow> json \<Rightarrow> error + string" where
  "str_add s (JStr t) = Inr (s @ t)"
| "str_add s _ = Inl TypeError"

text \<open>
  \<^verbatim>\<open>v < n\<close> for an integer literal \<^verbatim>\<open>n\<close>: defined on numbers (a \<^verbatim>\<open>bool\<close> is an
  \<^verbatim>\<open>int\<close> in Python), a \<^verbatim>\<open>TypeError\<close> on everything else.
\<close>

fun lt_int :: "json \<Rightarrow> int \<Rightarrow> error + bool" where
  "lt_int (JInt i) n = Inr (i < n)"
| "lt_int (JFloat q) n = Inr (q < of_int n)"
| "lt_int (JBool b) n = Inr ((if b then 1 else 0) < n)"
| "lt_int _ n = Inl TypeError"

text \<open>
  \<^verbatim>\<open>for x in v\<close>: a list yields its elements, a dictionary its keys, a string its
  characters; nothing else is iterable.
\<close>

fun iterate :: "json \<Rightarrow> error + json list" where
  "iterate (JList xs) = Inr xs"
| "iterate (JDict kvs) = Inr (map (\<lambda>kv. JStr (fst kv)) kvs)"
| "iterate (JStr s) = Inr (map (\<lambda>c. JStr [c]) s)"
| "iterate _ = Inl TypeError"

text \<open>
  Dictionary keys. Lists and dictionaries are unhashable; numbers that compare equal
  (\<^verbatim>\<open>1\<close>, \<^verbatim>\<open>1.0\<close>, \<^verbatim>\<open>True\<close>) are one key.
\<close>

fun hashable :: "json \<Rightarrow> bool" where
  "hashable (JList _) = False"
| "hashable (JDict _) = False"
| "hashable _ = True"

fun number :: "json \<Rightarrow> rat option" where
  "number (JInt i) = Some (of_int i)"
| "number (JFloat q) = Some q"
| "number (JBool b) = Some (if b then 1 else 0)"
| "number _ = None"

definition key_eq :: "json \<Rightarrow> json \<Rightarrow> bool" where
  "key_eq a b =
     (case (number a, number b) of
        (Some x, Some y) \<Rightarrow> x = y
      | (None, None) \<Rightarrow> a = b
      | _ \<Rightarrow> False)"

text \<open>
  \<^verbatim>\<open>d[k] = v\<close> on a dictionary kept as its item list: an existing key keeps its place
  (and its first spelling) and takes the new value, a new key goes to the end.
\<close>

fun setitem :: "(json \<times> 'v) list \<Rightarrow> json \<Rightarrow> 'v \<Rightarrow> (json \<times> 'v) list" where
  "setitem [] k v = [(k, v)]"
| "setitem ((k', v') # d) k v =
     (if key_eq k' k then (k', v) # d else (k', v') # setitem d k v)"

text \<open>The same for a dictionary with string keys, such as the HTTP headers.\<close>

fun setstr :: "(string \<times> 'v) list \<Rightarrow> string \<Rightarrow> 'v \<Rightarrow> (string \<times> 'v) list" where
  "setstr [] k v = [(k, v)]"
| "setstr ((k', v') # d) k v =
     (if k' = k then (k', v) # d else (k', v') # setstr d k v)"

section \<open>Transport\<close>

text \<open>
  An f-string such as \<^verbatim>\<open>f"homes/{self.id}/zones/{zone}/overlay"\<close> is kept as its parts:
  the literal pieces and the interpolated values, in order. What \<^verbatim>\<open>str()\<close> prints for
  a value is not modelled.
\<close>

datatype part = Lit string | Val json

text \<open>
  A request URL is either an absolute literal or \<^verbatim>\<open>urljoin(API_URL, cmd)\<close>, kept as the
  base and the command.
\<close>

datatype url = Absolute string | Urljoin string "part list"

definition API_URL :: string where
  "API_URL = ''https://my.tado.com/api/v2/''"

definition HEADERS :: "(string \<times> string) list" where
  "HEADERS = [(''Referer'', ''https://my.tado.com/'')]"

text \<open>
  What is handed to \<^verbatim>\<open>session.request\<close>: the method, the URL and the keyword arguments
  \<^verbatim>\<open>json\<close>, \<^verbatim>\<open>data\<close> and \<^verbatim>\<open>headers\<close> (\<open>None\<close> when not given).
\<close>

record request =
  meth :: string
  target :: url
  json_arg :: "json option"
  data_arg :: "(string \<times> json) list option"
  headers_arg :: "(string \<times> string) list option"

text \<open>
  What comes back: no response at all (aiohttp raises a connection error), or a response
  with a status and a body; the body is \<open>None\<close> when \<^verbatim>\<open>response.json()\<close> cannot decode it.
\<close>

datatype reply = ConnectionFailed | Response nat "json option"

text \<open>
  The world outside the client: a clock (seconds, what \<^verbatim>\<open>time.monotonic\<close> reads), the
  replies the servers are going to give, each with the time it takes to arrive, and the
  requests sent so far. A world with no reply left is a network that is down.
\<close>

record world =
  clock :: rat
  script :: "(rat \<times> reply) list"
  sent :: "request list"

definition send :: "request \<Rightarrow> world \<Rightarrow> reply \<times> world" where
  "send req w =
     (case script w of
        [] \<Rightarrow> (ConnectionFailed, w\<lparr>sent := sent w @ [req]\<rparr>)
      | (d, r) # rest \<Rightarrow>
          (r, w\<lparr>clock := clock w + d, script := rest, sent := sent w @ [req]\<rparr>))"

text \<open>
  \<^verbatim>\<open>response.raise_for_status()\<close> of aiohttp raises \<^verbatim>\<open>ClientResponseError\<close> when the
  status is 400 or above.
\<close>

definition raise_for_status :: "nat \<Rightarrow> error + unit" where
  "raise_for_status st = (if 400 \<le> st then Inl (ClientResponseError st) else Inr ())"

text \<open>\<^verbatim>\<open>await response.json()\<close>.\<close>

definition json_of :: "json option \<Rightarrow> error + json" where
  "json_of body = (case body of None \<Rightarrow> Inl ContentTypeError | Some v \<Rightarrow> Inr v)"

section \<open>TTL cache\<close>

text \<open>
  Modelled from the spec: \<^verbatim>\<open>cachetools.TTLCache(maxsize, ttl)\<close> is a library class that is
  not part of the repository. A cache entry holds a value and the time it was inserted;
  an entry whose age has reached \<open>ttl\<close> is treated as absent; storing drops the expired
  entries and then evicts least-recently-used entries until there is room. The entries
  are kept least recently used first. The library refuses (\<^verbatim>\<open>ValueError\<close>) to store into a
  cache whose \<open>maxsize\<close> is below the size 1 of an item.
\<close>

record 'v ttl_cache =
  cache_maxsize :: nat
  cache_ttl :: rat
  entries :: "(string \<times> 'v \<times> rat) list"

definition TTLCache :: "nat \<Rightarrow> rat \<Rightarrow> 'v ttl_cache" where
  "TTLCache maxsize ttl = \<lparr>cache_maxsize = maxsize, cache_ttl = ttl, entries = []\<rparr>"

definition live :: "'v ttl_cache \<Rightarrow> rat \<Rightarrow> rat \<Rightarrow> bool" where
  "live c now t0 = (now - t0 < cache_ttl c)"

text \<open>\<^verbatim>\<open>key in cache\<close>.\<close>

definition cache_contains :: "'v ttl_cache \<Rightarrow> rat \<Rightarrow> string \<Rightarrow> bool" where
  "cache_contains c now key =
     (case map_of (entries c) key of None \<Rightarrow> False | Some (v, t0) \<Rightarrow> live c now t0)"

text \<open>\<^verbatim>\<open>cache[key]\<close>: the value, and the entry becomes the most recently used one.\<close>

definition cache_getitem :: "'v ttl_cache \<Rightarrow> rat \<Rightarrow> string \<Rightarrow> error + 'v \<times> 'v ttl_cache" where
  "cache_getitem c now key =
     (case map_of (entries c) key of
        None \<Rightarrow> Inl (KeyError (JStr key))
      | Some (v, t0) \<Rightarrow>
          if live c now t0
          then Inr (v, c\<lparr>entries := filter (\<lambda>e. fst e \<noteq> key) (entries c) @ [(key, v, t0)]\<rparr>)
          else Inl (KeyError (JStr key)))"

text \<open>\<^verbatim>\<open>cache[key] = value\<close>.\<close>

definition cache_setitem :: "'v ttl_cache \<Rightarrow> rat \<Rightarrow> string \<Rightarrow> 'v \<Rightarrow> error + 'v ttl_cache" where
  "cache_setitem c now key v =
     (if cache_maxsize c < 1 then Inl ValueError
      else
        let kept = filter (\<lambda>e. fst e \<noteq> key \<and> live c now (snd (snd e))) (entries c);
            room = drop (Suc (length kept) - cache_maxsize c) kept
        in Inr (c\<lparr>entries := room @ [(key, v, now)]\<rparr>))"

text \<open>
  \<^verbatim>\<open>async_cached_property(prop, maxsize, ttl)\<close>: the getter \<^verbatim>\<open>cached_get\<close> it builds, for
  the key \<^verbatim>\<open>prop.__name__\<close>. The argument \<open>attr\<close> is the instance's \<^verbatim>\<open>__cache__\<close> attribute
  (\<open>None\<close> while the instance has none), \<open>prop\<close> is the decorated coroutine applied to the
  instance: it runs in the world and may fail. \<open>timer\<close> reads the cache's clock from the
  world; the clock does not move between the membership test and the read that follows,
  since no \<^verbatim>\<open>await\<close> stands between them.
\<close>

definition cached_get ::
  "('w \<Rightarrow> rat) \<Rightarrow> nat \<Rightarrow> rat \<Rightarrow> string \<Rightarrow> ('w \<Rightarrow> (error + 'v) \<times> 'w) \<Rightarrow>
   'v ttl_cache option \<Rightarrow> 'w \<Rightarrow> (error + 'v) \<times> 'v ttl_cache option \<times> 'w" where
  "cached_get timer maxsize ttl key prop attr w =
     (let cache = (case attr of None \<Rightarrow> TTLCache maxsize ttl | Some c \<Rightarrow> c) in
      if cache_contains cache (timer w) key then
        (case cache_getitem cache (timer w) key of
           Inl e \<Rightarrow> (Inl e, Some cache, w)
         | Inr (v, cache') \<Rightarrow> (Inr v, Some cache', w))
      else
        (case prop w of
           (Inl e, w') \<Rightarrow> (Inl e, Some cache, w')
         | (Inr v, w') \<Rightarrow>
             (case cache_setitem cache (timer w') key v of
                Inl e \<Rightarrow> (Inl e, Some cache, w')
              | Inr cache' \<Rightarrow> (Inr v, Some cache', w'))))"

section \<open>Home and Zone\<close>

text \<open>
  A \<^verbatim>\<open>Zone\<close> refers to its \<^verbatim>\<open>Home\<close> (\<^verbatim>\<open>self.api\<close>); the reference is the address of the
  home object. \<open>zone_cache\<close> is the zone's \<^verbatim>\<open>__cache__\<close> attribute.
\<close>

record zone =
  zone_id :: json
  zone_name :: json
  api :: nat
  extras :: "(string \<times> json) list"
  zone_cache :: "json ttl_cache option"

text \<open>What a cached property of a \<^verbatim>\<open>Home\<close> holds: a decoded response, or the zone mapping.\<close>

datatype cached = CJson json | CZones "(json \<times> zone) list"

text \<open>
  The fields of \<^verbatim>\<open>Home\<close>. The aiohttp session is the \<^typ>\<open>world\<close>; \<open>home_cache\<close> is the
  \<^verbatim>\<open>__cache__\<close> attribute. The tokens are whatever the token response held under their
  names, so they are JSON values.
\<close>

record home =
  username :: string
  secret :: string
  home_id :: json
  access_token :: json
  refresh_token :: json
  access_headers :: "(string \<times> string) list"
  temperature_unit :: string
  home_cache :: "cached ttl_cache option"

text \<open>\<^verbatim>\<open>Home._api_call\<close> and its bindings \<^verbatim>\<open>get\<close>, \<^verbatim>\<open>put\<close> and \<^verbatim>\<open>delete\<close>.\<close>

definition api_call ::
  "home \<Rightarrow> part list \<Rightarrow> string \<Rightarrow> json option \<Rightarrow> (string \<times> json) list option \<Rightarrow>
   world \<Rightarrow> (error + json) \<times> world" where
  "api_call self cmd method js data w =
     (case send \<lparr>meth = method, target = Urljoin API_URL cmd, json_arg = js,
                 data_arg = data, headers_arg = Some (access_headers self)\<rparr> w of
        (ConnectionFailed, w') \<Rightarrow> (Inl ClientConnectionError, w')
      | (Response st body, w') \<Rightarrow>
          (case raise_for_status st of
             Inl e \<Rightarrow> (Inl e, w')
           | Inr _ \<Rightarrow> (json_of body, w')))"

definition get :: "home \<Rightarrow> part list \<Rightarrow> world \<Rightarrow> (error + json) \<times> world" where
  "get self cmd = api_call self cmd ''GET'' None None"

definition put :: "home \<Rightarrow> part list \<Rightarrow> json \<Rightarrow> world \<Rightarrow> (error + json) \<times> world" where
  "put self cmd js = api_call self cmd ''PUT'' (Some js) None"

definition delete :: "home \<Rightarrow> part list \<Rightarrow> world \<Rightarrow> (error + json) \<times> world" where
  "delete self cmd = api_call self cmd ''DELETE'' None None"

text \<open>
  \<^verbatim>\<open>Home.refresh_auth\<close>. The three assignments at its end run one after the other, so an
  exception between them leaves the earlier ones done.
\<close>

definition refresh_auth :: "home \<Rightarrow> world \<Rightarrow> (error + unit) \<times> home \<times> world" where
  "refresh_auth self w =
     (case send \<lparr>meth = ''POST'', target = Absolute ''https://auth.tado.com/oauth/token'',
                 json_arg = None,
                 data_arg = Some [(''client_id'', JStr ''tado-web-app''),
                                  (''client_secret'', JStr (secret self)),
                                  (''grant_type'', JStr ''refresh_token''),
                                  (''refresh_token'', refresh_token self),
                                  (''scope'', JStr ''home.user'')],
                 headers_arg = Some (access_headers self)\<rparr> w of
        (ConnectionFailed, w') \<Rightarrow> (Inl ClientConnectionError, self, w')
      | (Response st body, w') \<Rightarrow>
          (case raise_for_status st of
             Inl e \<Rightarrow> (Inl e, self, w')
           | Inr _ \<Rightarrow>
          (case json_of body of
             Inl e \<Rightarrow> (Inl e, self, w')
           | Inr response \<Rightarrow>
          (case getitem response ''access_token'' of
             Inl e \<Rightarrow> (Inl e, self, w')
           | Inr a \<Rightarrow>
          (let self1 = self\<lparr>access_token := a\<rparr> in
           case getitem response ''refresh_token'' of
             Inl e \<Rightarrow> (Inl e, self1, w')
           | Inr r \<Rightarrow>
          (let self2 = self1\<lparr>refresh_token := r\<rparr> in
           case str_add ''Bearer '' (access_token self2) of
             Inl e \<Rightarrow> (Inl e, self2, w')
           | Inr b \<Rightarrow>
               (Inr (),
                self2\<lparr>access_headers := setstr (access_headers self2) ''Authorization'' b\<rparr>,
                w')))))))"

text \<open>\<^verbatim>\<open>Home.get_early_start\<close>, \<^verbatim>\<open>Home.get_state\<close>.\<close>

definition get_early_start :: "home \<Rightarrow> json \<Rightarrow> world \<Rightarrow> (error + json) \<times> world" where
  "get_early_start self zn w =
     (case get self [Lit ''homes/'', Val (home_id self), Lit ''/zones/'', Val zn,
                     Lit ''/earlyStart''] w of
        (Inl e, w') \<Rightarrow> (Inl e, w')
      | (Inr response, w') \<Rightarrow> (getitem response ''enabled'', w'))"

definition get_state :: "home \<Rightarrow> json \<Rightarrow> world \<Rightarrow> (error + json) \<times> world" where
  "get_state self zn =
     get self [Lit ''homes/'', Val (home_id self), Lit ''/zones/'', Val zn, Lit ''/state'']"

text \<open>
  \<^verbatim>\<open>Zone(api, **zone)\<close> for a dictionary \<^verbatim>\<open>zone\<close>: the call needs the keywords \<^verbatim>\<open>id\<close> and
  \<^verbatim>\<open>name\<close>, refuses a keyword that names a parameter already bound (\<^verbatim>\<open>self\<close>, \<^verbatim>\<open>api\<close>), and
  collects every other keyword in \<^verbatim>\<open>extras\<close>. Each refusal is a \<^verbatim>\<open>TypeError\<close>.
\<close>

definition Zone :: "nat \<Rightarrow> (string \<times> json) list \<Rightarrow> error + zone" where
  "Zone a kw =
     (if map_of kw ''self'' \<noteq> None \<or> map_of kw ''api'' \<noteq> None then Inl TypeError
      else case map_of kw ''id'' of
        None \<Rightarrow> Inl TypeError
      | Some i \<Rightarrow>
          (case map_of kw ''name'' of
             None \<Rightarrow> Inl TypeError
           | Some n \<Rightarrow>
               Inr \<lparr>zone_id = i, zone_name = n, api = a,
                    extras = filter (\<lambda>kv. fst kv \<noteq> ''id'' \<and> fst kv \<noteq> ''name'') kw,
                    zone_cache = None\<rparr>))"

text \<open>
  The comprehension \<^verbatim>\<open>{zone["id"]: Zone(self, **zone) for zone in zones}\<close>, with the
  dictionary built so far as accumulator. For each element the key is evaluated first,
  then the value, then the item is stored (which hashes the key).
\<close>

fun zones_comprehension ::
  "nat \<Rightarrow> json list \<Rightarrow> (json \<times> zone) list \<Rightarrow> error + (json \<times> zone) list" where
  "zones_comprehension a [] acc = Inr acc"
| "zones_comprehension a (z # zs) acc =
     (case getitem z ''id'' of
        Inl e \<Rightarrow> Inl e
      | Inr k \<Rightarrow>
          (case z of
             JDict kw \<Rightarrow>
               (case Zone a kw of
                  Inl e \<Rightarrow> Inl e
                | Inr zn \<Rightarrow>
                    if hashable k then zones_comprehension a zs (setitem acc k zn)
                    else Inl TypeError)
           | _ \<Rightarrow> Inl TypeError))"

text \<open>The body of the property \<^verbatim>\<open>Home.zones\<close>; \<open>a\<close> is the address of \<^verbatim>\<open>self\<close>.\<close>

definition zones_prop :: "nat \<Rightarrow> home \<Rightarrow> world \<Rightarrow> (error + cached) \<times> world" where
  "zones_prop a self w =
     (case get self [Lit ''homes/'', Val (home_id self), Lit ''/zones''] w of
        (Inl e, w') \<Rightarrow> (Inl e, w')
      | (Inr zs, w') \<Rightarrow>
          (case iterate zs of
             Inl e \<Rightarrow> (Inl e, w')
           | Inr xs \<Rightarrow>
               (case zones_comprehension a xs [] of
                  Inl e \<Rightarrow> (Inl e, w')
                | Inr d \<Rightarrow> (Inr (CZones d), w'))))"

text \<open>\<^verbatim>\<open>Home.zones\<close>: the property under \<^verbatim>\<open>@async_cached_property\<close> (16 entries, 60 seconds).\<close>

definition zones :: "nat \<Rightarrow> home \<Rightarrow> world \<Rightarrow> (error + cached) \<times> home \<times> world" where
  "zones a self w =
     (case cached_get clock 16 60 ''zones'' (zones_prop a self) (home_cache self) w of
        (r, c, w') \<Rightarrow> (r, self\<lparr>home_cache := c\<rparr>, w'))"

text \<open>\<^verbatim>\<open>Home.set_temperature\<close> and its two local functions.\<close>

definition get_termination_dict :: "json \<Rightarrow> json" where
  "get_termination_dict termination =
     (if termination = JStr ''MANUAL'' then JDict [(''type'', JStr ''MANUAL'')]
      else if termination = JStr ''AUTO'' then JDict [(''type'', JStr ''TADO_MODE'')]
      else JDict [(''type'', JStr ''TIMER''), (''durationInSeconds'', termination)])"

definition get_setting_dict :: "json \<Rightarrow> error + json" where
  "get_setting_dict temperature =
     (case lt_int temperature 5 of
        Inl e \<Rightarrow> Inl e
      | Inr lt \<Rightarrow>
          if lt then Inr (JDict [(''type'', JStr ''HEATING''), (''power'', JStr ''OFF'')])
          else Inr (JDict [(''type'', JStr ''HEATING''), (''power'', JStr ''ON''),
                           (''temperature'', JDict [(''celsius'', temperature)])]))"

definition set_temperature ::
  "home \<Rightarrow> json \<Rightarrow> json \<Rightarrow> json \<Rightarrow> world \<Rightarrow> (error + json) \<times> world" where
  "set_temperature self zn temperature termination w =
     (case get_setting_dict temperature of
        Inl e \<Rightarrow> (Inl e, w)
      | Inr setting \<Rightarrow>
          put self [Lit ''homes/'', Val (home_id self), Lit ''/zones/'', Val zn,
                    Lit ''/overlay'']
            (JDict [(''setting'', setting),
                    (''termination'', get_termination_dict termination)]) w)"

text \<open>
  Modelled from the spec: \<^verbatim>\<open>glom.glom(target, spec)\<close> is a library function that is not
  part of the repository. A string spec is a path whose segments are separated by dots,
  each segment a key of the dictionary reached so far; a tuple spec applies its elements
  one after the other. A segment that cannot be followed is a \<^verbatim>\<open>PathAccessError\<close>. Only
  access into dictionaries is modelled.
\<close>

fun split_dots :: "string \<Rightarrow> string list" where
  "split_dots [] = [[]]"
| "split_dots (c # cs) =
     (if c = CHR ''.'' then [] # split_dots cs
      else case split_dots cs of
        [] \<Rightarrow> [[c]]
      | s # ss \<Rightarrow> (c # s) # ss)"

fun glom_path :: "json \<Rightarrow> string list \<Rightarrow> error + json" where
  "glom_path v [] = Inr v"
| "glom_path v (seg # segs) =
     (case v of
        JDict kvs \<Rightarrow>
          (case map_of kvs seg of
             None \<Rightarrow> Inl PathAccessError
           | Some v' \<Rightarrow> glom_path v' segs)
      | _ \<Rightarrow> Inl PathAccessError)"

fun glom :: "json \<Rightarrow> string list \<Rightarrow> error + json" where
  "glom v [] = Inr v"
| "glom v (spec # specs) =
     (case glom_path v (split_dots spec) of
        Inl e \<Rightarrow> Inl e
      | Inr v' \<Rightarrow> glom v' specs)"

text \<open>
  \<^verbatim>\<open>Zone.state\<close> (cached, 16 entries, 60 seconds) and \<^verbatim>\<open>Zone.inside_temperature\<close>. \<open>heap\<close>
  gives the home object at an address, so \<open>heap (api self)\<close> is \<^verbatim>\<open>self.api\<close>.
\<close>

definition state :: "(nat \<Rightarrow> home) \<Rightarrow> zone \<Rightarrow> world \<Rightarrow> (error + json) \<times> zone \<times> world" where
  "state heap self w =
     (case cached_get clock 16 60 ''state'' (get_state (heap (api self)) (zone_id self))
             (zone_cache self) w of
        (r, c, w') \<Rightarrow> (r, self\<lparr>zone_cache := c\<rparr>, w'))"

definition inside_temperature ::
  "(nat \<Rightarrow> home) \<Rightarrow> zone \<Rightarrow> world \<Rightarrow> (error + json) \<times> zone \<times> world" where
  "inside_temperature heap self w =
     (case state heap self w of
        (Inl e, self', w') \<Rightarrow> (Inl e, self', w')
      | (Inr st, self', w') \<Rightarrow>
          (glom st [''sensorDataPoints.insideTemperature'', temperature_unit (heap (api self))],
           self', w'))"

text \<open>
  \<^verbatim>\<open>login\<close>. The token request carries no headers and its status is not looked at; the
  response of the call to API v1 is dropped; the profile's status is not looked at either.
\<close>

definition login :: "string \<Rightarrow> string \<Rightarrow> string \<Rightarrow> world \<Rightarrow> (error + home) \<times> world" where
  "login user password scrt w =
     (case send \<lparr>meth = ''POST'', target = Absolute ''https://auth.tado.com/oauth/token'',
                 json_arg = None,
                 data_arg = Some [(''client_id'', JStr ''tado-web-app''),
                                  (''client_secret'', JStr scrt),
                                  (''grant_type'', JStr ''password''),
                                  (''password'', JStr password),
                                  (''scope'', JStr ''home.user''),
                                  (''username'', JStr user)],
                 headers_arg = None\<rparr> w of
        (ConnectionFailed, w1) \<Rightarrow> (Inl ClientConnectionError, w1)
      | (Response st body, w1) \<Rightarrow>
     (case json_of body of
        Inl e \<Rightarrow> (Inl e, w1)
      | Inr decoded \<Rightarrow>
     (case getitem decoded ''access_token'' of
        Inl e \<Rightarrow> (Inl e, w1)
      | Inr a \<Rightarrow>
     (case getitem decoded ''refresh_token'' of
        Inl e \<Rightarrow> (Inl e, w1)
      | Inr r \<Rightarrow>
     (case str_add ''Bearer '' a of
        Inl e \<Rightarrow> (Inl e, w1)
      | Inr b \<Rightarrow>
     (let hdrs = setstr HEADERS ''Authorization'' b in
      case send \<lparr>meth = ''GET'', target = Absolute ''https://my.tado.com/api/v1/me'',
                 json_arg = None, data_arg = None, headers_arg = Some hdrs\<rparr> w1 of
        (ConnectionFailed, w2) \<Rightarrow> (Inl ClientConnectionError, w2)
      | (Response st2 body2, w2) \<Rightarrow>
     (case send \<lparr>meth = ''GET'', target = Urljoin API_URL [Lit ''me''],
                 json_arg = None, data_arg = None, headers_arg = Some hdrs\<rparr> w2 of
        (ConnectionFailed, w3) \<Rightarrow> (Inl ClientConnectionError, w3)
      | (Response st3 body3, w3) \<Rightarrow>
     (case json_of body3 of
        Inl e \<Rightarrow> (Inl e, w3)
      | Inr me \<Rightarrow>
     (case getitem me ''homes'' of
        Inl e \<Rightarrow> (Inl e, w3)
      | Inr hs \<Rightarrow>
     (case getitem0 hs of
        Inl e \<Rightarrow> (Inl e, w3)
      | Inr h \<Rightarrow>
     (case getitem h ''id'' of
        Inl e \<Rightarrow> (Inl e, w3)
      | Inr i \<Rightarrow>
          (Inr \<lparr>username = user, secret = scrt, home_id = i, access_token = a,
                refresh_token = r, access_headers = hdrs,
                temperature_unit = ''celsius'', home_cache = None\<rparr>, w3))))))))))))"

section \<open>Concrete inputs\<close>

text \<open>
  The session of the scenario \<^verbatim>\<open>login("user", "pass", "secret")\<close> with the token response
  \<^verbatim>\<open>{access_token: "A1", refresh_token: "R1"}\<close> and the profile \<^verbatim>\<open>{homes: [{id: 42}]}\<close>.
\<close>

definition tokens0 :: json where
  "tokens0 = JDict [(''access_token'', JStr ''A1''), (''refresh_token'', JStr ''R1'')]"

definition me0 :: json where
  "me0 = JDict [(''homes'', JList [JDict [(''id'', JInt 42)]])]"

definition home0 :: home where
  "home0 = \<lparr>username = ''user'', secret = ''secret'', home_id = JInt 42,
            access_token = JStr ''A1'', refresh_token = JStr ''R1'',
            access_headers = [(''Referer'', ''https://my.tado.com/''),
                              (''Authorization'', ''Bearer A1'')],
            temperature_unit = ''celsius'', home_cache = None\<rparr>"

text \<open>A world whose clock reads \<open>t\<close> and whose servers answer at once with the given replies.\<close>

definition world_at :: "rat \<Rightarrow> reply list \<Rightarrow> world" where
  "world_at t rs = \<lparr>clock = t, script = map (\<lambda>r. (0, r)) rs, sent = []\<rparr>"

text \<open>A cache holding one entry for the key \<^verbatim>\<open>state\<close>, inserted at time 0.\<close>

definition cache0 :: "json ttl_cache" where
  "cache0 = \<lparr>cache_maxsize = 16, cache_ttl = 60, entries = [(''state'', JStr ''old'', 0)]\<rparr>"

text \<open>A zone of the home at address 7 whose state was cached at time 0.\<close>

definition zone0 :: zone where
  "zone0 = \<lparr>zone_id = JInt 1, zone_name = JStr ''Living'', api = 7, extras = [],
            zone_cache = Some \<lparr>cache_maxsize = 16, cache_ttl = 60,
              entries = [(''state'',
                JDict [(''sensorDataPoints'',
                  JDict [(''insideTemperature'',
                    JDict [(''celsius'', JFloat (41 / 2)), (''fahrenheit'', JFloat (689 / 10))])])],
                0)]\<rparr>\<rparr>"

section \<open>Transport facts\<close>

lemma send_reply:
  "script w = (d, r) # rest \<Longrightarrow>
   send req w = (r, w\<lparr>clock := clock w + d, script := rest, sent := sent w @ [req]\<rparr>)"
  by (simp add: send_def)

lemma api_call_sent:
  "sent (snd (api_call self cmd m js d w)) =
     sent w @ [\<lparr>meth = m, target = Urljoin API_URL cmd, json_arg = js, data_arg = d,
                headers_arg = Some (access_headers self)\<rparr>]"
  by (simp add: api_call_def send_def split: list.split prod.split reply.split sum.split)

lemma map_of_setstr: "map_of (setstr d k v) k = Some v"
  by (induction d) auto

section \<open>Setting a temperature\<close>

lemma set_temperature_sent:
  "get_setting_dict t = Inr s \<Longrightarrow>
   sent (snd (set_temperature self zn t mode w)) =
     sent w @ [\<lparr>meth = ''PUT'',
                target = Urljoin API_URL [Lit ''homes/'', Val (home_id self), Lit ''/zones/'',
                                          Val zn, Lit ''/overlay''],
                json_arg = Some (JDict [(''setting'', s),
                                        (''termination'', get_termination_dict mode)]),
                data_arg = None, headers_arg = Some (access_headers self)\<rparr>]"
  by (simp add: set_temperature_def put_def api_call_sent)

lemma set_temperature_payload:
  "get_setting_dict t = Inr s \<Longrightarrow>
   json_arg (last (sent (snd (set_temperature self zn t mode w)))) =
     Some (JDict [(''setting'', s), (''termination'', get_termination_dict mode)])"
  by (simp add: set_temperature_sent)

text \<open>
  Claim C4. The request that \<^verbatim>\<open>set_temperature\<close> sends carries, for an integer or float
  temperature below 5, the setting \<^verbatim>\<open>{type: HEATING, power: OFF}\<close> with no temperature
  field, and for a temperature of 5 or more the setting
  \<^verbatim>\<open>{type: HEATING, power: ON, temperature: {celsius: temperature}}\<close>. The setting is the
  same whatever the termination argument is.
\<close>

theorem set_temperature_setting:
  "(i < 5 \<longrightarrow>
      json_arg (last (sent (snd (set_temperature self zn (JInt i) mode w)))) =
        Some (JDict [(''setting'', JDict [(''type'', JStr ''HEATING''), (''power'', JStr ''OFF'')]),
                     (''termination'', get_termination_dict mode)])) \<and>
   (5 \<le> i \<longrightarrow>
      json_arg (last (sent (snd (set_temperature self zn (JInt i) mode w)))) =
        Some (JDict [(''setting'', JDict [(''type'', JStr ''HEATING''), (''power'', JStr ''ON''),
                                          (''temperature'', JDict [(''celsius'', JInt i)])]),
                     (''termination'', get_termination_dict mode)])) \<and>
   (q < 5 \<longrightarrow>
      json_arg (last (sent (snd (set_temperature self zn (JFloat q) mode w)))) =
        Some (JDict [(''setting'', JDict [(''type'', JStr ''HEATING''), (''power'', JStr ''OFF'')]),
                     (''termination'', get_termination_dict mode)])) \<and>
   (5 \<le> q \<longrightarrow>
      json_arg (last (sent (snd (set_temperature self zn (JFloat q) mode w)))) =
        Some (JDict [(''setting'', JDict [(''type'', JStr ''HEATING''), (''power'', JStr ''ON''),
                                          (''temperature'', JDict [(''celsius'', JFloat q)])]),
                     (''termination'', get_termination_dict mode)]))"
  by (simp add: set_temperature_payload get_setting_dict_def)

text \<open>
  Claim C4 at concrete inputs: 3 degrees with termination \<^verbatim>\<open>"AUTO"\<close> switches the zone off,
  20.5 degrees with a timer of 600 seconds switches it on.
\<close>

theorem set_temperature_setting_witness:
  "json_arg (last (sent (snd (set_temperature home0 (JInt 1) (JInt 3) (JStr ''AUTO'')
      (world_at 0 []))))) =
     Some (JDict [(''setting'', JDict [(''type'', JStr ''HEATING''), (''power'', JStr ''OFF'')]),
                  (''termination'', JDict [(''type'', JStr ''TADO_MODE'')])]) \<and>
   json_arg (last (sent (snd (set_temperature home0 (JInt 1) (JFloat (41 / 2)) (JInt 600)
      (world_at 0 []))))) =
     Some (JDict [(''setting'', JDict [(''type'', JStr ''HEATING''), (''power'', JStr ''ON''),
                                       (''temperature'', JDict [(''celsius'', JFloat (41 / 2))])]),
                  (''termination'', JDict [(''type'', JStr ''TIMER''),
                                           (''durationInSeconds'', JInt 600)])])"
  using set_temperature_setting [where i = 3 and q = "41 / 2" and self = home0 and zn = "JInt 1"
      and mode = "JStr ''AUTO''" and w = "world_at 0 []"]
    set_temperature_setting [where i = 3 and q = "41 / 2" and self = home0 and zn = "JInt 1"
      and mode = "JInt 600" and w = "world_at 0 []"]
  by (simp add: get_termination_dict_def)

text \<open>
  Claim C5. Whenever \<^verbatim>\<open>set_temperature\<close> builds a payload, its termination part is
  \<^verbatim>\<open>{type: MANUAL}\<close> for \<^verbatim>\<open>"MANUAL"\<close>, \<^verbatim>\<open>{type: TADO_MODE}\<close> for \<^verbatim>\<open>"AUTO"\<close>, and
  \<^verbatim>\<open>{type: TIMER, durationInSeconds: v}\<close> for any other value \<open>v\<close>, which is passed on as
  it is.
\<close>

theorem set_temperature_termination:
  assumes "get_setting_dict temperature = Inr setting"
  shows
  "json_arg (last (sent (snd (set_temperature self zn temperature (JStr ''MANUAL'') w)))) =
     Some (JDict [(''setting'', setting),
                  (''termination'', JDict [(''type'', JStr ''MANUAL'')])]) \<and>
   json_arg (last (sent (snd (set_temperature self zn temperature (JStr ''AUTO'') w)))) =
     Some (JDict [(''setting'', setting),
                  (''termination'', JDict [(''type'', JStr ''TADO_MODE'')])]) \<and>
   (v \<noteq> JStr ''MANUAL'' \<longrightarrow> v \<noteq> JStr ''AUTO'' \<longrightarrow>
    json_arg (last (sent (snd (set_temperature self zn temperature v w)))) =
     Some (JDict [(''setting'', setting),
                  (''termination'', JDict [(''type'', JStr ''TIMER''),
                                           (''durationInSeconds'', v)])]))"
  using assms by (simp add: set_temperature_payload get_termination_dict_def)

text \<open>Claim C5 at 21 degrees, for \<^verbatim>\<open>"MANUAL"\<close>, \<^verbatim>\<open>"AUTO"\<close> and 1800 seconds.\<close>

theorem set_temperature_termination_witness:
  "json_arg (last (sent (snd (set_temperature home0 (JInt 1) (JInt 21) (JStr ''MANUAL'')
      (world_at 0 []))))) =
     Some (JDict [(''setting'', JDict [(''type'', JStr ''HEATING''), (''power'', JStr ''ON''),
                                       (''temperature'', JDict [(''celsius'', JInt 21)])]),
                  (''termination'', JDict [(''type'', JStr ''MANUAL'')])]) \<and>
   json_arg (last (sent (snd (set_temperature home0 (JInt 1) (JInt 21) (JStr ''AUTO'')
      (world_at 0 []))))) =
     Some (JDict [(''setting'', JDict [(''type'', JStr ''HEATING''), (''power'', JStr ''ON''),
                                       (''temperature'', JDict [(''celsius'', JInt 21)])]),
                  (''termination'', JDict [(''type'', JStr ''TADO_MODE'')])]) \<and>
   json_arg (last (sent (snd (set_temperature home0 (JInt 1) (JInt 21) (JInt 1800)
      (world_at 0 []))))) =
     Some (JDict [(''setting'', JDict [(''type'', JStr ''HEATING''), (''power'', JStr ''ON''),
                                       (''temperature'', JDict [(''celsius'', JInt 21)])]),
                  (''termination'', JDict [(''type'', JStr ''TIMER''),
                                           (''durationInSeconds'', JInt 1800)])])"
proof -
  have s: "get_setting_dict (JInt 21) =
    Inr (JDict [(''type'', JStr ''HEATING''), (''power'', JStr ''ON''),
                (''temperature'', JDict [(''celsius'', JInt 21)])])"
    by (simp add: get_setting_dict_def)
  show ?thesis
    using set_temperature_termination [OF s, where self = home0 and zn = "JInt 1"
        and w = "world_at 0 []" and v = "JInt 1800"]
    by simp
qed

section \<open>Early start\<close>

text \<open>
  Claim C7, as stated, fails: when the endpoint answers \<^verbatim>\<open>{enabled: true}\<close>,
  \<^verbatim>\<open>get_early_start\<close> returns \<^verbatim>\<open>True\<close>, not the response.
\<close>

theorem get_early_start_projects:
  "fst (get_early_start home0 (JInt 1)
          (world_at 0 [Response 200 (Some (JDict [(''enabled'', JBool True)]))])) =
     Inr (JBool True) \<and>
   fst (get home0 [Lit ''homes/'', Val (home_id home0), Lit ''/zones/'', Val (JInt 1),
                   Lit ''/earlyStart'']
          (world_at 0 [Response 200 (Some (JDict [(''enabled'', JBool True)]))])) =
     Inr (JDict [(''enabled'', JBool True)])"
  by (simp add: get_early_start_def get_def api_call_def send_def raise_for_status_def
      json_of_def world_at_def home0_def)

text \<open>
  Claim C7, amended. When the early-start endpoint answers with a status below 400 and a
  JSON object that has the field \<^verbatim>\<open>enabled\<close>, \<^verbatim>\<open>get_early_start\<close> returns the value of that
  field, for every home and zone.
\<close>

theorem get_early_start_enabled:
  assumes "script w = (d, Response st (Some (JDict kvs))) # rest" and "st < 400"
      and "map_of kvs ''enabled'' = Some v"
  shows "fst (get_early_start self zn w) = Inr v"
  using assms
  by (simp add: get_early_start_def get_def api_call_def send_def raise_for_status_def
      json_of_def)

text \<open>Claim C7, amended, for the answer \<^verbatim>\<open>{enabled: false}\<close>.\<close>

theorem get_early_start_enabled_witness:
  "fst (get_early_start home0 (JInt 1)
          (world_at 0 [Response 200 (Some (JDict [(''enabled'', JBool False)]))])) =
     Inr (JBool False)"
  using get_early_start_enabled [where
      w = "world_at 0 [Response 200 (Some (JDict [(''enabled'', JBool False)]))]"
      and d = 0 and st = 200 and kvs = "[(''enabled'', JBool False)]" and rest = "[]"
      and v = "JBool False" and self = home0 and zn = "JInt 1"]
  by (simp add: world_at_def)

section \<open>Login\<close>

text \<open>The scenario: the session that \<^verbatim>\<open>login\<close> returns for the mocked responses.\<close>

lemma login_scenario:
  "fst (login ''user'' ''pass'' ''secret''
     (world_at 0 [Response 200 (Some tokens0), Response 200 None, Response 200 (Some me0)])) =
   Inr home0"
  by (simp add: login_def send_def world_at_def tokens0_def me0_def json_of_def HEADERS_def
      home0_def Let_def)

text \<open>
  Claim C10. Let the token response hold a string \<^verbatim>\<open>access_token\<close> and a \<^verbatim>\<open>refresh_token\<close>,
  and let the profile hold a list under \<^verbatim>\<open>homes\<close>. When the list is empty, \<^verbatim>\<open>login\<close> fails
  with \<^verbatim>\<open>IndexError\<close> and returns no session; when its first element is an object with an
  \<^verbatim>\<open>id\<close>, \<^verbatim>\<open>login\<close> returns the session whose \<open>home_id\<close> is that id.
\<close>

theorem login_home_id:
  assumes "script w = (d1, Response st1 (Some (JDict tok))) # (d2, Response st2 b2) #
                      (d3, Response st3 (Some (JDict me))) # rest"
      and "map_of tok ''access_token'' = Some (JStr a)"
      and "map_of tok ''refresh_token'' = Some r"
      and "map_of me ''homes'' = Some (JList hs)"
  shows "(hs = [] \<longrightarrow> fst (login user password scrt w) = Inl IndexError) \<and>
         (\<forall>kvs i more. hs = JDict kvs # more \<and> map_of kvs ''id'' = Some i \<longrightarrow>
            fst (login user password scrt w) =
              Inr \<lparr>username = user, secret = scrt, home_id = i, access_token = JStr a,
                   refresh_token = r,
                   access_headers = [(''Referer'', ''https://my.tado.com/''),
                                     (''Authorization'', ''Bearer '' @ a)],
                   temperature_unit = ''celsius'', home_cache = None\<rparr>)"
  using assms
  by (auto simp add: login_def send_reply json_of_def HEADERS_def Let_def)

text \<open>
  Claim C10 for the profiles \<^verbatim>\<open>{homes: []}\<close> and \<^verbatim>\<open>{homes: [{id: 42}]}\<close>.
\<close>

theorem login_home_id_witness:
  "fst (login ''user'' ''pass'' ''secret''
     (world_at 0 [Response 200 (Some tokens0), Response 200 None,
                  Response 200 (Some (JDict [(''homes'', JList [])]))])) = Inl IndexError \<and>
   fst (login ''user'' ''pass'' ''secret''
     (world_at 0 [Response 200 (Some tokens0), Response 200 None, Response 200 (Some me0)])) =
     Inr home0"
  using login_home_id [where w = "world_at 0 [Response 200 (Some tokens0), Response 200 None,
              Response 200 (Some (JDict [(''homes'', JList [])]))]"
      and ?d1.0 = 0 and ?d2.0 = 0 and ?d3.0 = 0 and ?st1.0 = 200 and ?st2.0 = 200 and ?st3.0 = 200
      and ?b2.0 = None and rest = "[]"
      and tok = "[(''access_token'', JStr ''A1''), (''refresh_token'', JStr ''R1'')]"
      and me = "[(''homes'', JList [])]" and a = "''A1''" and r = "JStr ''R1''" and hs = "[]"
      and user = "''user''" and password = "''pass''" and scrt = "''secret''"]
    login_home_id [where w = "world_at 0 [Response 200 (Some tokens0), Response 200 None,
              Response 200 (Some me0)]"
      and ?d1.0 = 0 and ?d2.0 = 0 and ?d3.0 = 0 and ?st1.0 = 200 and ?st2.0 = 200 and ?st3.0 = 200
      and ?b2.0 = None and rest = "[]"
      and tok = "[(''access_token'', JStr ''A1''), (''refresh_token'', JStr ''R1'')]"
      and me = "[(''homes'', JList [JDict [(''id'', JInt 42)]])]" and a = "''A1''"
      and r = "JStr ''R1''" and hs = "[JDict [(''id'', JInt 42)]]"
      and user = "''user''" and password = "''pass''" and scrt = "''secret''"]
  by (simp add: world_at_def tokens0_def me0_def home0_def)

text \<open>
  Claim C2, as stated, fails twice. \<^verbatim>\<open>login\<close> does not look at the status of the token
  response: with status 401 and a body that holds both tokens it returns a session. And
  when the body lacks \<^verbatim>\<open>access_token\<close> the exception is the \<^verbatim>\<open>KeyError\<close> of the lookup.
\<close>

theorem login_ignores_status:
  "fst (login ''user'' ''pass'' ''secret''
     (world_at 0 [Response 401 (Some tokens0), Response 200 None, Response 200 (Some me0)])) =
     Inr home0 \<and>
   fst (login ''user'' ''pass'' ''secret''
     (world_at 0 [Response 401 (Some (JDict [(''error'', JStr ''invalid_grant'')]))])) =
     Inl (KeyError (JStr ''access_token''))"
  by (simp add: login_def send_def world_at_def tokens0_def me0_def json_of_def HEADERS_def
      home0_def Let_def)

text \<open>
  Claim C2, amended. For every username, password and client secret, when the body of
  the token response is a JSON object that lacks \<^verbatim>\<open>access_token\<close> or \<^verbatim>\<open>refresh_token\<close>,
  \<^verbatim>\<open>login\<close> returns no session: it fails with the \<^verbatim>\<open>KeyError\<close> of the first missing field.
\<close>

theorem login_missing_token:
  assumes "script w = (d, Response st (Some (JDict tok))) # rest"
      and "map_of tok ''access_token'' = None \<or> map_of tok ''refresh_token'' = None"
  shows "fst (login user password scrt w) =
           Inl (KeyError (JStr (if map_of tok ''access_token'' = None then ''access_token''
                                else ''refresh_token'')))"
  using assms
  by (auto simp add: login_def send_reply json_of_def split: option.splits)

text \<open>Claim C2, amended, for the token response \<^verbatim>\<open>{access_token: "A1"}\<close>.\<close>

theorem login_missing_token_witness:
  "fst (login ''user'' ''pass'' ''secret''
     (world_at 0 [Response 200 (Some (JDict [(''access_token'', JStr ''A1'')]))])) =
     Inl (KeyError (JStr ''refresh_token''))"
  using login_missing_token [where
      w = "world_at 0 [Response 200 (Some (JDict [(''access_token'', JStr ''A1'')]))]"
      and d = 0 and st = 200 and tok = "[(''access_token'', JStr ''A1'')]" and rest = "[]"
      and user = "''user''" and password = "''pass''" and scrt = "''secret''"]
  by (simp add: world_at_def)

text \<open>After \<^verbatim>\<open>login\<close> the \<^verbatim>\<open>Authorization\<close> header is built from the stored access token.\<close>

lemma login_authorization:
  assumes "login user password scrt w = (Inr h, w')"
  shows "\<exists>a. access_token h = JStr a \<and>
             map_of (access_headers h) ''Authorization'' = Some (''Bearer '' @ a)"
proof -
  have "\<exists>a. access_token h = JStr a \<and>
            access_headers h = setstr HEADERS ''Authorization'' (''Bearer '' @ a)"
    using assms
    by (auto simp add: login_def Let_def split: prod.splits reply.splits sum.splits
        elim!: str_add.elims)
  then show ?thesis by (auto simp add: map_of_setstr)
qed

section \<open>Refreshing the tokens\<close>

text \<open>A status of 400 or above: \<^verbatim>\<open>refresh_auth\<close> fails and the session is as before.\<close>

lemma refresh_auth_http_error:
  assumes "script w = (d, Response st body) # rest" and "400 \<le> st"
  shows "fst (refresh_auth self w) = Inl (ClientResponseError st) \<and>
         fst (snd (refresh_auth self w)) = self"
  using assms by (simp add: refresh_auth_def send_reply raise_for_status_def)

text \<open>A response without \<^verbatim>\<open>access_token\<close>: \<^verbatim>\<open>refresh_auth\<close> fails and the session is as before.\<close>

lemma refresh_auth_no_access_token:
  assumes "script w = (d, Response st (Some (JDict tok))) # rest" and "st < 400"
      and "map_of tok ''access_token'' = None"
  shows "fst (refresh_auth self w) = Inl (KeyError (JStr ''access_token'')) \<and>
         fst (snd (refresh_auth self w)) = self"
  using assms by (simp add: refresh_auth_def send_reply raise_for_status_def json_of_def)

text \<open>
  A response with \<^verbatim>\<open>access_token\<close> and without \<^verbatim>\<open>refresh_token\<close>: \<^verbatim>\<open>refresh_auth\<close> fails
  after it has stored the new access token.
\<close>

lemma refresh_auth_no_refresh_token:
  assumes "script w = (d, Response st (Some (JDict tok))) # rest" and "st < 400"
      and "map_of tok ''access_token'' = Some a"
      and "map_of tok ''refresh_token'' = None"
  shows "fst (refresh_auth self w) = Inl (KeyError (JStr ''refresh_token'')) \<and>
         fst (snd (refresh_auth self w)) = self\<lparr>access_token := a\<rparr>"
  using assms by (simp add: refresh_auth_def send_reply raise_for_status_def json_of_def)

lemma refresh_auth_success:
  assumes "script w = (d, Response st (Some (JDict tok))) # rest" and "st < 400"
      and "map_of tok ''access_token'' = Some (JStr a)"
      and "map_of tok ''refresh_token'' = Some r"
  shows "fst (refresh_auth self w) = Inr () \<and>
         fst (snd (refresh_auth self w)) =
           self\<lparr>access_token := JStr a, refresh_token := r,
                access_headers :=
                  setstr (access_headers self) ''Authorization'' (''Bearer '' @ a)\<rparr>"
  using assms by (simp add: refresh_auth_def send_reply raise_for_status_def json_of_def)

text \<open>After a successful refresh the header is built from the new access token.\<close>

lemma refresh_auth_success_authorization:
  assumes "script w = (d, Response st (Some (JDict tok))) # rest" and "st < 400"
      and "map_of tok ''access_token'' = Some (JStr a)"
      and "map_of tok ''refresh_token'' = Some r"
  shows "access_token (fst (snd (refresh_auth self w))) = JStr a \<and>
         map_of (access_headers (fst (snd (refresh_auth self w)))) ''Authorization'' =
           Some (''Bearer '' @ a)"
  using refresh_auth_success [OF assms, of self] by (simp add: map_of_setstr)

text \<open>
  Claim C1 at the input where the code departs from it: the session of the scenario,
  and a token endpoint that answers 200 with \<^verbatim>\<open>{access_token: "A2"}\<close>. \<^verbatim>\<open>refresh_auth\<close>
  fails with \<^verbatim>\<open>KeyError\<close>, and the stored access token has changed from \<^verbatim>\<open>A1\<close> to \<^verbatim>\<open>A2\<close>.
\<close>

theorem refresh_auth_partial_update:
  "fst (refresh_auth home0
     (world_at 0 [Response 200 (Some (JDict [(''access_token'', JStr ''A2'')]))])) =
     Inl (KeyError (JStr ''refresh_token'')) \<and>
   fst (snd (refresh_auth home0
     (world_at 0 [Response 200 (Some (JDict [(''access_token'', JStr ''A2'')]))]))) =
     home0\<lparr>access_token := JStr ''A2''\<rparr> \<and>
   access_token home0 = JStr ''A1''"
  by (simp add: refresh_auth_def send_def world_at_def raise_for_status_def json_of_def
      home0_def)

text \<open>
  Claim C6 at the input where the code departs from it: \<^verbatim>\<open>login\<close> as in the scenario,
  then a refresh that the token endpoint answers with \<^verbatim>\<open>{access_token: "A2"}\<close>. After the
  failed refresh the session stores the access token \<^verbatim>\<open>A2\<close> while its \<^verbatim>\<open>Authorization\<close>
  header is still \<^verbatim>\<open>Bearer A1\<close>.
\<close>

theorem refresh_auth_stale_header:
  "(case login ''user'' ''pass'' ''secret''
      (world_at 0 [Response 200 (Some tokens0), Response 200 None, Response 200 (Some me0),
                   Response 200 (Some (JDict [(''access_token'', JStr ''A2'')]))]) of
      (Inl e, w1) \<Rightarrow> False
    | (Inr h, w1) \<Rightarrow>
        (case refresh_auth h w1 of
           (r, h', w2) \<Rightarrow>
             r = Inl (KeyError (JStr ''refresh_token'')) \<and>
             access_token h' = JStr ''A2'' \<and>
             map_of (access_headers h') ''Authorization'' = Some ''Bearer A1''))"
  by (simp add: login_def refresh_auth_def send_def world_at_def tokens0_def me0_def json_of_def
      raise_for_status_def HEADERS_def Let_def)

section \<open>Cached properties\<close>

lemma map_of_append_new:
  "key \<notin> fst ` set xs \<Longrightarrow> map_of (xs @ [(key, v)]) key = Some v"
  by (induction xs) auto

lemma cache_setitem_stores:
  assumes "0 < cache_maxsize c"
  shows "\<exists>c'. cache_setitem c now key v = Inr c' \<and> map_of (entries c') key = Some (v, now)"
proof -
  let ?kept = "filter (\<lambda>e. fst e \<noteq> key \<and> live c now (snd (snd e))) (entries c)"
  let ?room = "drop (Suc (length ?kept) - cache_maxsize c) ?kept"
  have "set ?room \<subseteq> set ?kept" by (rule set_drop_subset)
  then have "key \<notin> fst ` set ?room" by auto
  then have "map_of (?room @ [(key, (v, now))]) key = Some (v, now)"
    by (rule map_of_append_new)
  with assms show ?thesis by (simp add: cache_setitem_def Let_def)
qed

text \<open>A live entry is returned as it is; the decorated coroutine plays no part.\<close>

lemma cached_get_hit:
  assumes "map_of (entries c) key = Some (v, t0)" and "timer w - t0 < cache_ttl c"
  shows "cached_get timer maxsize ttl key compute (Some c) w =
           (Inr v,
            Some (c\<lparr>entries := filter (\<lambda>e. fst e \<noteq> key) (entries c) @ [(key, v, t0)]\<rparr>), w)"
  using assms
  by (simp add: cached_get_def cache_contains_def cache_getitem_def live_def)

text \<open>Without a live entry the coroutine runs once and its result is stored.\<close>

lemma cached_get_miss:
  assumes "\<not> cache_contains c (timer w) key" and "0 < cache_maxsize c"
      and "compute w = (Inr v, w')"
      and "attr = Some c \<or> attr = None \<and> c = TTLCache maxsize ttl"
  shows "\<exists>c'. cached_get timer maxsize ttl key compute attr w = (Inr v, Some c', w') \<and>
              map_of (entries c') key = Some (v, timer w')"
proof -
  obtain c' where "cache_setitem c (timer w') key v = Inr c'"
      and "map_of (entries c') key = Some (v, timer w')"
    using cache_setitem_stores [OF assms(2)] by blast
  then show ?thesis using assms(1,3,4) by (auto simp add: cached_get_def)
qed

text \<open>
  Claim C3. Let the instance's cache hold the value \<open>v\<close> for a key, inserted at time
  \<open>t0\<close>. An access while the entry's age is below the cache's ttl returns \<open>v\<close>, leaves the
  world as it is, and is the same whatever the decorated coroutine is: the coroutine is
  not run, so there is no network call. An access when the age has reached the ttl runs
  the coroutine once, from the world \<open>w\<close> to the world \<open>w'\<close>, returns its result and stores
  it under the key with the time of \<open>w'\<close>.
\<close>

theorem cached_get_ttl:
  assumes "map_of (entries c) key = Some (v, t0)"
  shows "(timer w - t0 < cache_ttl c \<longrightarrow>
            fst (cached_get timer maxsize ttl key compute (Some c) w) = Inr v \<and>
            snd (snd (cached_get timer maxsize ttl key compute (Some c) w)) = w \<and>
            cached_get timer maxsize ttl key compute (Some c) w =
              cached_get timer maxsize ttl key other (Some c) w) \<and>
         (cache_ttl c \<le> timer w - t0 \<and> 0 < cache_maxsize c \<and> compute w = (Inr v', w') \<longrightarrow>
            (\<exists>c'. cached_get timer maxsize ttl key compute (Some c) w = (Inr v', Some c', w') \<and>
                  map_of (entries c') key = Some (v', timer w')))"
proof (intro conjI impI)
  assume age: "timer w - t0 < cache_ttl c"
  show "fst (cached_get timer maxsize ttl key compute (Some c) w) = Inr v"
    and "snd (snd (cached_get timer maxsize ttl key compute (Some c) w)) = w"
    and "cached_get timer maxsize ttl key compute (Some c) w =
         cached_get timer maxsize ttl key other (Some c) w"
    using assms age by (simp_all add: cached_get_hit [where timer = timer and w = w])
next
  assume a: "cache_ttl c \<le> timer w - t0 \<and> 0 < cache_maxsize c \<and> compute w = (Inr v', w')"
  then have "\<not> cache_contains c (timer w) key"
    using assms by (simp add: cache_contains_def live_def)
  then show "\<exists>c'. cached_get timer maxsize ttl key compute (Some c) w = (Inr v', Some c', w') \<and>
                  map_of (entries c') key = Some (v', timer w')"
    using a by (intro cached_get_miss) auto
qed

text \<open>
  Claim C3 on the zone state of home 42, cached at time 0 with a ttl of 60 seconds. At
  time 59 the stored value comes back and the world, with its pending reply and its
  empty list of requests, is untouched. At time 75 the reply is fetched with exactly one
  request.
\<close>

theorem cached_get_ttl_witness:
  "fst (cached_get clock 16 60 ''state'' (get_state home0 (JInt 1)) (Some cache0)
          (world_at 59 [Response 200 (Some (JStr ''new''))])) = Inr (JStr ''old'') \<and>
   snd (snd (cached_get clock 16 60 ''state'' (get_state home0 (JInt 1)) (Some cache0)
          (world_at 59 [Response 200 (Some (JStr ''new''))]))) =
     world_at 59 [Response 200 (Some (JStr ''new''))] \<and>
   fst (cached_get clock 16 60 ''state'' (get_state home0 (JInt 1)) (Some cache0)
          (world_at 75 [Response 200 (Some (JStr ''new''))])) = Inr (JStr ''new'') \<and>
   length (sent (snd (snd (cached_get clock 16 60 ''state'' (get_state home0 (JInt 1))
          (Some cache0) (world_at 75 [Response 200 (Some (JStr ''new''))]))))) = 1"
proof -
  let ?p = "get_state home0 (JInt 1)"
  let ?w1 = "world_at 59 [Response 200 (Some (JStr ''new''))]"
  let ?w2 = "world_at 75 [Response 200 (Some (JStr ''new''))]"
  have e: "map_of (entries cache0) ''state'' = Some (JStr ''old'', 0)"
    by (simp add: cache0_def)
  obtain w' where p: "?p ?w2 = (Inr (JStr ''new''), w')" and s: "length (sent w') = 1"
    by (simp add: get_state_def get_def api_call_def send_def world_at_def raise_for_status_def
        json_of_def)
  have h: "clock ?w1 - 0 < cache_ttl cache0"
    by (simp add: world_at_def cache0_def)
  have m: "cache_ttl cache0 \<le> clock ?w2 - 0 \<and> 0 < cache_maxsize cache0 \<and>
           ?p ?w2 = (Inr (JStr ''new''), w')"
    using p by (simp add: world_at_def cache0_def)
  from cached_get_ttl [OF e, where timer = clock and w = "?w1" and maxsize = 16 and ttl = 60
      and compute = "?p"] h
  have 1: "fst (cached_get clock 16 60 ''state'' ?p (Some cache0) ?w1) = Inr (JStr ''old'')"
    and 2: "snd (snd (cached_get clock 16 60 ''state'' ?p (Some cache0) ?w1)) = ?w1"
    by blast+
  from cached_get_ttl [OF e, where timer = clock and w = "?w2" and maxsize = 16 and ttl = 60
      and compute = "?p" and v' = "JStr ''new''" and w' = w'] m
  obtain c' where "cached_get clock 16 60 ''state'' ?p (Some cache0) ?w2 =
      (Inr (JStr ''new''), Some c', w')"
    by blast
  with 1 2 s show ?thesis by simp
qed

section \<open>The zones of a home\<close>

lemma key_eq_JInt: "key_eq (JInt i) (JInt j) = (i = j)"
  by (simp add: key_eq_def)

lemma setitem_new: "\<forall>kv \<in> set d. \<not> key_eq (fst kv) k \<Longrightarrow> setitem d k v = d @ [(k, v)]"
  by (induction d) auto

text \<open>
  The comprehension over zone objects with distinct integer ids, none of which is a key
  of the accumulator, appends one item per object, in order.
\<close>

lemma zones_comprehension_distinct:
  assumes "\<forall>kw \<in> set kws. \<exists>i n. map_of kw ''id'' = Some (JInt i) \<and> map_of kw ''name'' = Some n \<and>
             map_of kw ''self'' = None \<and> map_of kw ''api'' = None"
      and "distinct (map (\<lambda>kw. map_of kw ''id'') kws)"
      and "\<forall>kv \<in> set acc. \<exists>j. fst kv = JInt j \<and> (\<forall>kw \<in> set kws. map_of kw ''id'' \<noteq> Some (JInt j))"
  shows "zones_comprehension a (map JDict kws) acc =
           Inr (acc @ map (\<lambda>kw. (the (map_of kw ''id''),
                  \<lparr>zone_id = the (map_of kw ''id''), zone_name = the (map_of kw ''name''),
                   api = a,
                   extras = filter (\<lambda>kv. fst kv \<noteq> ''id'' \<and> fst kv \<noteq> ''name'') kw,
                   zone_cache = None\<rparr>)) kws)"
  using assms
proof (induction kws arbitrary: acc)
  case Nil
  then show ?case by simp
next
  case (Cons kw kws)
  from Cons.prems(1) obtain i n where kw: "map_of kw ''id'' = Some (JInt i)"
      "map_of kw ''name'' = Some n" "map_of kw ''self'' = None" "map_of kw ''api'' = None"
    by auto
  let ?z = "\<lparr>zone_id = JInt i, zone_name = n, api = a,
             extras = filter (\<lambda>kv. fst kv \<noteq> ''id'' \<and> fst kv \<noteq> ''name'') kw,
             zone_cache = None\<rparr>"
  have unused: "\<forall>kv \<in> set acc. \<not> key_eq (fst kv) (JInt i)"
  proof
    fix kv assume "kv \<in> set acc"
    with Cons.prems(3) obtain j where "fst kv = JInt j" "map_of kw ''id'' \<noteq> Some (JInt j)"
      by fastforce
    with kw show "\<not> key_eq (fst kv) (JInt i)" by (auto simp add: key_eq_JInt)
  qed
  have step: "zones_comprehension a (map JDict (kw # kws)) acc =
              zones_comprehension a (map JDict kws) (acc @ [(JInt i, ?z)])"
    using kw unused by (simp add: Zone_def setitem_new)
  have acc': "\<forall>kv \<in> set (acc @ [(JInt i, ?z)]).
          \<exists>j. fst kv = JInt j \<and> (\<forall>kw \<in> set kws. map_of kw ''id'' \<noteq> Some (JInt j))"
  proof
    fix kv assume "kv \<in> set (acc @ [(JInt i, ?z)])"
    then consider "kv \<in> set acc" | "kv = (JInt i, ?z)" by auto
    then show "\<exists>j. fst kv = JInt j \<and> (\<forall>kw \<in> set kws. map_of kw ''id'' \<noteq> Some (JInt j))"
    proof cases
      case 1
      with Cons.prems(3) show ?thesis by fastforce
    next
      case 2
      have "\<forall>kw' \<in> set kws. map_of kw' ''id'' \<noteq> Some (JInt i)"
        using Cons.prems(2) kw(1) by force
      with 2 show ?thesis by simp
    qed
  qed
  have "zones_comprehension a (map JDict kws) (acc @ [(JInt i, ?z)]) =
        Inr ((acc @ [(JInt i, ?z)]) @ map (\<lambda>kw. (the (map_of kw ''id''),
                  \<lparr>zone_id = the (map_of kw ''id''), zone_name = the (map_of kw ''name''),
                   api = a,
                   extras = filter (\<lambda>kv. fst kv \<noteq> ''id'' \<and> fst kv \<noteq> ''name'') kw,
                   zone_cache = None\<rparr>)) kws)"
    using Cons.prems(1,2) acc' by (intro Cons.IH) auto
  with step kw show ?case by simp
qed

lemma zones_prop_reply:
  assumes "script w = (d, Response st (Some (JList zs))) # rest" and "st < 400"
  shows "zones_prop a self w =
           (case zones_comprehension a zs [] of Inl e \<Rightarrow> Inl e | Inr m \<Rightarrow> Inr (CZones m),
            snd (get self [Lit ''homes/'', Val (home_id self), Lit ''/zones''] w))"
  using assms
  by (simp add: zones_prop_def get_def api_call_def send_reply raise_for_status_def json_of_def
      split: sum.split)

text \<open>
  Claim C8. Let the home at address \<open>a\<close> hold no live cache entry for \<^verbatim>\<open>zones\<close>, and let
  the zone listing be answered with a list of objects, each with an integer \<^verbatim>\<open>id\<close> and a
  \<^verbatim>\<open>name\<close>, the ids distinct, and no object with a field called \<^verbatim>\<open>self\<close> or \<^verbatim>\<open>api\<close> (the
  parameters that \<^verbatim>\<open>Zone\<close> binds itself). Then \<^verbatim>\<open>zones\<close> returns the mapping that takes each
  id to the zone with that id, that name, the remaining fields as extras, and \<open>a\<close> as its
  reference to the home.
\<close>

theorem zones_mapping:
  assumes "script w = (d, Response st (Some (JList (map JDict kws)))) # rest" and "st < 400"
      and "home_cache self = None \<or>
           (\<exists>c. home_cache self = Some c \<and> \<not> cache_contains c (clock w) ''zones'' \<and>
                0 < cache_maxsize c)"
      and "\<forall>kw \<in> set kws. \<exists>i n. map_of kw ''id'' = Some (JInt i) \<and> map_of kw ''name'' = Some n \<and>
             map_of kw ''self'' = None \<and> map_of kw ''api'' = None"
      and "distinct (map (\<lambda>kw. map_of kw ''id'') kws)"
  shows "fst (zones a self w) =
           Inr (CZones (map (\<lambda>kw. (the (map_of kw ''id''),
                  \<lparr>zone_id = the (map_of kw ''id''), zone_name = the (map_of kw ''name''),
                   api = a,
                   extras = filter (\<lambda>kv. fst kv \<noteq> ''id'' \<and> fst kv \<noteq> ''name'') kw,
                   zone_cache = None\<rparr>)) kws))"
proof -
  let ?m = "map (\<lambda>kw. (the (map_of kw ''id''),
                  \<lparr>zone_id = the (map_of kw ''id''), zone_name = the (map_of kw ''name''),
                   api = a,
                   extras = filter (\<lambda>kv. fst kv \<noteq> ''id'' \<and> fst kv \<noteq> ''name'') kw,
                   zone_cache = None\<rparr>)) kws"
  let ?w' = "snd (get self [Lit ''homes/'', Val (home_id self), Lit ''/zones''] w)"
  have "zones_comprehension a (map JDict kws) [] = Inr ([] @ ?m)"
    using assms(4,5) by (intro zones_comprehension_distinct) auto
  then have run: "zones_prop a self w = (Inr (CZones ?m), ?w')"
    using zones_prop_reply [OF assms(1,2), of a self] by simp
  obtain c :: "cached ttl_cache" where c: "\<not> cache_contains c (clock w) ''zones''"
      "0 < cache_maxsize c"
      "home_cache self = Some c \<or> home_cache self = None \<and> c = TTLCache 16 60"
  proof (cases "home_cache self")
    case None
    have "\<not> cache_contains (TTLCache 16 60 :: cached ttl_cache) (clock w) ''zones''"
      by (simp add: cache_contains_def TTLCache_def)
    moreover have "0 < cache_maxsize (TTLCache 16 60 :: cached ttl_cache)"
      by (simp add: TTLCache_def)
    ultimately show ?thesis using None that by blast
  next
    case (Some c)
    with assms(3) that show ?thesis by auto
  qed
  have "\<exists>c'. cached_get clock 16 60 ''zones'' (zones_prop a self) (home_cache self) w =
              (Inr (CZones ?m), Some c', ?w') \<and>
            map_of (entries c') ''zones'' = Some (CZones ?m, clock ?w')"
    using c(1,2) run c(3) by (rule cached_get_miss)
  then show ?thesis by (auto simp add: zones_def)
qed

text \<open>
  Claim C8 for the listing \<^verbatim>\<open>[{id: 1, name: "Living"}]\<close>, fetched by the home at address 7.
\<close>

theorem zones_mapping_witness:
  "fst (zones 7 home0
     (world_at 0 [Response 200
        (Some (JList [JDict [(''id'', JInt 1), (''name'', JStr ''Living'')]]))])) =
   Inr (CZones [(JInt 1, \<lparr>zone_id = JInt 1, zone_name = JStr ''Living'', api = 7, extras = [],
                           zone_cache = None\<rparr>)])"
  using zones_mapping [where
      w = "world_at 0 [Response 200
             (Some (JList [JDict [(''id'', JInt 1), (''name'', JStr ''Living'')]]))]"
      and d = 0 and st = 200 and kws = "[[(''id'', JInt 1), (''name'', JStr ''Living'')]]"
      and rest = "[]" and self = home0 and a = 7]
  by (simp add: world_at_def home0_def)

section \<open>The inside temperature of a zone\<close>

lemma split_dots_plain: "CHR ''.'' \<notin> set s \<Longrightarrow> split_dots s = [s]"
  by (induction s) auto

lemma split_dots_inside:
  "split_dots ''sensorDataPoints.insideTemperature'' =
     [''sensorDataPoints'', ''insideTemperature'']"
  by simp

text \<open>
  Claim C9. When the zone's state, cached or fetched, is an object that holds under
  \<^verbatim>\<open>sensorDataPoints\<close> an object that holds under \<^verbatim>\<open>insideTemperature\<close> an object with a value
  \<open>v\<close> under the temperature unit of the zone's home (a name without a dot),
  \<^verbatim>\<open>inside_temperature\<close> returns \<open>v\<close>.
\<close>

theorem inside_temperature_value:
  assumes "state heap self w = (Inr (JDict st), self', w')"
      and "map_of st ''sensorDataPoints'' = Some (JDict points)"
      and "map_of points ''insideTemperature'' = Some (JDict inside)"
      and "map_of inside (temperature_unit (heap (api self))) = Some v"
      and "CHR ''.'' \<notin> set (temperature_unit (heap (api self)))"
  shows "inside_temperature heap self w = (Inr v, self', w')"
  using assms
  by (simp add: inside_temperature_def split_dots_inside split_dots_plain)

lemma state_zone0:
  "state (\<lambda>a. home0) zone0 (world_at 30 []) =
     (Inr (JDict [(''sensorDataPoints'',
                  JDict [(''insideTemperature'',
                    JDict [(''celsius'', JFloat (41 / 2)), (''fahrenheit'', JFloat (689 / 10))])])]),
      zone0, world_at 30 [])"
  by (simp add: state_def cached_get_def cache_contains_def cache_getitem_def live_def zone0_def
      world_at_def)

text \<open>
  Claim C9 for the unit \<^verbatim>\<open>celsius\<close> and a cached state whose
  \<^verbatim>\<open>sensorDataPoints.insideTemperature.celsius\<close> is 20.5: the result is 20.5.
\<close>

theorem inside_temperature_value_witness:
  "inside_temperature (\<lambda>a. home0) zone0 (world_at 30 []) =
     (Inr (JFloat (41 / 2)), zone0, world_at 30 [])"
  using inside_temperature_value [OF state_zone0, where v = "JFloat (41 / 2)"]
  by (simp add: home0_def)

end
